theory Spec2Isabelle
  imports Main "HOL-Library.AList" "HOL-Library.Sublist"
begin

section \<open>Python values, exceptions and the outside world\<close>

text \<open>
  Values that cross the API are JSON-shaped Python objects. \<open>JNull\<close> is Python's
  \<open>None\<close>, \<open>JObj\<close> is a \<open>dict\<close> in insertion order (lookup takes the first
  binding; parsed dictionaries have no duplicate keys).
\<close>

datatype json =
    JNull
  | JBool bool
  | JNum int
  | JStr string
  | JArr "json list"
  | JObj "(string \<times> json) list"

datatype pyexc = ValueError | TypeError | KeyError | UnboundLocalError

datatype http_method = GET | PUT | POST | DELETE

record request =
  meth :: http_method
  url :: string
  headers :: "(string \<times> string) list"
  auth :: "string \<times> string"
  payload :: "json option"
  params :: "json option"

text \<open>
  A response as the \<open>requests\<close> library hands it over (\<open>resp_text\<close> is \<open>r.text\<close>).
  \<open>parsed\<close> is the value of
  \<open>json.loads(r.text)\<close>, \<open>None\<close> where that call raises \<open>ValueError\<close>.
\<close>

record response =
  status_code :: int
  resp_text :: string
  parsed :: "json option"
  resp_url :: string
  resp_headers :: "(string \<times> string) list"

datatype level = DEBUG | WARNING | ERROR

datatype logmsg =
    ReqUrl string
  | ReqHeaders "(string \<times> string) list"
  | ReqUser string
  | ReqPayload "json option"
  | ReqParams "json option"
  | RespUrl string
  | RespCode int
  | RespHeaders "(string \<times> string) list"
  | RespBody string
  | UnexpectedJsonForBadResponse
  | HttpStatus int "string option"
  | ServerError json
  | NoPermissionForUser
  | DeletionOfTrade string
  | DeletedTrade string string
  | UnableToDeleteTrade string
  | UnableToQueryTrades
  | QueriedUrl string
  | NoTradesField string string
  | FoundErrorCondition "(string \<times> json) list"
  | NoTradesFound "(string \<times> json) list"
  | TradesFound nat "(string \<times> json) list"
  | DubiousTagExpression string
  | UnableToQueryImportStatus
  | QueriedImportStatus string
  | UnexpectedImportStatus json
  | UnableToImport
  | UnexpectedPostStatus json string
  | ImportRequestSuccessful string
  | WaitingAndRetrying json
  | GivingUpImport int
  | WaitingForImport
  | ImporterReady
  | ImportSuccessful
  | ImportHadFailures
  | StillProcessing int
  | UnsupportedImportStatus json

text \<open>
  Everything the client does to the outside: the requests it issued (oldest first), the
  log records it wrote and the delays it slept.
\<close>

record world =
  requests :: "request list"
  log :: "(level \<times> logmsg) list"
  sleeps :: "int list"

text \<open>
  The remote side: the response to a request, given the requests that came before it.
\<close>

type_synonym transport = "request list \<Rightarrow> request \<Rightarrow> response"

record client =
  username :: string
  password :: string
  user_agent :: string
  target_user :: "string option"
  baseurl :: string
  verbose_http :: bool

definition emit :: "level \<Rightarrow> logmsg \<Rightarrow> world \<Rightarrow> world" where
  "emit l m w = w\<lparr>log := log w @ [(l, m)]\<rparr>"

text \<open>\<open>time.sleep\<close> raises \<open>ValueError\<close> on a negative delay.\<close>

definition sleep :: "int \<Rightarrow> world \<Rightarrow> (pyexc + unit) \<times> world" where
  "sleep secs w =
     (if secs < 0 then (Inl ValueError, w) else (Inr (), w\<lparr>sleeps := sleeps w @ [secs]\<rparr>))"

subsection \<open>Python's operators on these values\<close>

text \<open>\<open>k in j\<close> for a string \<open>k\<close>.\<close>

fun py_contains :: "string \<Rightarrow> json \<Rightarrow> pyexc + bool" where
  "py_contains k (JObj kvs) = Inr (k \<in> set (map fst kvs))"
| "py_contains k (JArr xs) = Inr (JStr k \<in> set xs)"
| "py_contains k (JStr s) = Inr (sublist k s)"
| "py_contains k JNull = Inl TypeError"
| "py_contains k (JBool b) = Inl TypeError"
| "py_contains k (JNum n) = Inl TypeError"

text \<open>\<open>j[k]\<close> for a string \<open>k\<close>.\<close>

fun py_getitem :: "json \<Rightarrow> string \<Rightarrow> pyexc + json" where
  "py_getitem (JObj kvs) k = (case map_of kvs k of None \<Rightarrow> Inl KeyError | Some v \<Rightarrow> Inr v)"
| "py_getitem (JArr xs) k = Inl TypeError"
| "py_getitem (JStr s) k = Inl TypeError"
| "py_getitem JNull k = Inl TypeError"
| "py_getitem (JBool b) k = Inl TypeError"
| "py_getitem (JNum n) k = Inl TypeError"

fun py_len :: "json \<Rightarrow> pyexc + nat" where
  "py_len (JObj kvs) = Inr (length kvs)"
| "py_len (JArr xs) = Inr (length xs)"
| "py_len (JStr s) = Inr (length s)"
| "py_len JNull = Inl TypeError"
| "py_len (JBool b) = Inl TypeError"
| "py_len (JNum n) = Inl TypeError"

text \<open>The items \<open>list.extend\<close> takes from its argument.\<close>

fun py_iter :: "json \<Rightarrow> pyexc + json list" where
  "py_iter (JObj kvs) = Inr (map (\<lambda>kv. JStr (fst kv)) kvs)"
| "py_iter (JArr xs) = Inr xs"
| "py_iter (JStr s) = Inr (map (\<lambda>c. JStr [c]) s)"
| "py_iter JNull = Inl TypeError"
| "py_iter (JBool b) = Inl TypeError"
| "py_iter (JNum n) = Inl TypeError"

fun is_list :: "json \<Rightarrow> bool" where
  "is_list (JArr xs) = True"
| "is_list j = False"

section \<open>The HTTP wrappers\<close>

definition request_headers :: "client \<Rightarrow> (string \<times> string) list" where
  "request_headers c =
     [(''Accept'', ''application/json''),
      (''Content-Type'', ''application/json''),
      (''User-Agent'', user_agent c)]
     @ (case target_user c of None \<Rightarrow> [] | Some u \<Rightarrow> [(''Tradervue-UserId'', u)])"

definition build_request :: "client \<Rightarrow> http_method \<Rightarrow> string \<Rightarrow> json option \<Rightarrow> json option \<Rightarrow> request" where
  "build_request c m u pl ps =
     \<lparr>meth = m, url = u, headers = request_headers c,
      auth = (username c, password c), payload = pl, params = ps\<rparr>"

definition log_request :: "request \<Rightarrow> world \<Rightarrow> world" where
  "log_request rq w =
     emit DEBUG (ReqParams (params rq))
       (emit DEBUG (ReqPayload (payload rq))
         (emit DEBUG (ReqUser (fst (auth rq)))
           (emit DEBUG (ReqHeaders (headers rq))
             (emit DEBUG (ReqUrl (url rq)) w))))"

definition log_response :: "response \<Rightarrow> world \<Rightarrow> world" where
  "log_response r w =
     emit DEBUG (RespBody (resp_text r))
       (emit DEBUG (RespHeaders (resp_headers r))
         (emit DEBUG (RespCode (status_code r))
           (emit DEBUG (RespUrl (resp_url r)) w)))"

definition make_request ::
  "client \<Rightarrow> transport \<Rightarrow> http_method \<Rightarrow> string \<Rightarrow> json option \<Rightarrow> json option \<Rightarrow> world
     \<Rightarrow> response \<times> world" where
  "make_request c tr m u pl ps w =
     (let rq = build_request c m u pl ps;
          w1 = (if verbose_http c then log_request rq w else w);
          r = tr (requests w1) rq;
          w2 = w1\<lparr>requests := requests w1 @ [rq]\<rparr>;
          w3 = (if verbose_http c then log_response r w2 else w2)
      in (r, w3))"

definition http_get :: "client \<Rightarrow> transport \<Rightarrow> string \<Rightarrow> json option \<Rightarrow> world \<Rightarrow> response \<times> world" where
  "http_get c tr u ps w = make_request c tr GET u None ps w"

definition http_post :: "client \<Rightarrow> transport \<Rightarrow> string \<Rightarrow> json option \<Rightarrow> world \<Rightarrow> response \<times> world" where
  "http_post c tr u pl w = make_request c tr POST u pl None w"

definition http_delete :: "client \<Rightarrow> transport \<Rightarrow> string \<Rightarrow> json option \<Rightarrow> world \<Rightarrow> response \<times> world" where
  "http_delete c tr u pl w = make_request c tr DELETE u pl None w"

section \<open>The response interpreter\<close>

text \<open>
  The failure reason \<open>server_error\<close> of \<open>__handle_bad_http_response\<close>, with the record
  it logs on the way. Only \<open>ValueError\<close> is caught; any other exception of the
  \<open>try\<close> block leaves the function.
\<close>

definition server_error_of :: "response \<Rightarrow> world \<Rightarrow> (pyexc + json) \<times> world" where
  "server_error_of r w =
     (case parsed r of
        None \<Rightarrow> (Inr (JStr (resp_text r)), w)
      | Some jdata \<Rightarrow>
          (case py_contains ''error'' jdata of
             Inl e \<Rightarrow> (Inl e, w)
           | Inr True \<Rightarrow> (py_getitem jdata ''error'', w)
           | Inr False \<Rightarrow>
               (case py_contains ''status'' jdata of
                  Inl e \<Rightarrow> (Inl e, w)
                | Inr True \<Rightarrow> (py_getitem jdata ''status'', w)
                | Inr False \<Rightarrow> (Inr (JStr (resp_text r)), emit ERROR UnexpectedJsonForBadResponse w))))"

definition truthy :: "string option \<Rightarrow> bool" where
  "truthy s = (case s of None \<Rightarrow> False | Some x \<Rightarrow> x \<noteq> [])"

definition handle_bad_http_response ::
  "client \<Rightarrow> response \<Rightarrow> logmsg \<Rightarrow> bool \<Rightarrow> world \<Rightarrow> (pyexc + unit) \<times> world" where
  "handle_bad_http_response c r msg show_url w =
     (let status = HttpStatus (status_code r) (if show_url then Some (resp_url r) else None)
      in case server_error_of r w of
           (Inl e, w1) \<Rightarrow> (Inl e, w1)
         | (Inr server_error, w1) \<Rightarrow>
             (let w2 = emit ERROR (ServerError server_error) (emit ERROR status (emit ERROR msg w1))
              in (Inr (),
                  if status_code r = 403 \<and> truthy (target_user c)
                  then emit ERROR NoPermissionForUser w2 else w2)))"

section \<open>The import workflow\<close>

definition import_status :: "client \<Rightarrow> transport \<Rightarrow> world \<Rightarrow> (pyexc + json) \<times> world" where
  "import_status c tr w =
     (case http_get c tr (baseurl c @ ''/'' @ ''imports'') None w of
        (r, w1) \<Rightarrow>
          if status_code r = 200 then
            (let w2 = emit DEBUG (QueriedImportStatus (resp_text r)) w1
             in case parsed r of
                  None \<Rightarrow> (Inl ValueError, w2)
                | Some data \<Rightarrow>
                    (case py_getitem data ''status'' of
                       Inl e \<Rightarrow> (Inl e, w2)
                     | Inr status \<Rightarrow>
                         if status \<notin> set [JStr ''ready'', JStr ''queued'', JStr ''processing'',
                                            JStr ''succeeded'', JStr ''failed'']
                         then (Inr JNull, emit ERROR (UnexpectedImportStatus status) w2)
                         else (Inr data, w2)))
          else
            (case handle_bad_http_response c r UnableToQueryImportStatus False w1 of
               (Inl e, w2) \<Rightarrow> (Inl e, w2)
             | (Inr u, w2) \<Rightarrow> (Inr JNull, w2)))"

text \<open>
  How the submission loop of \<open>__import_executions\<close> is left: by an exception, by a
  \<open>return\<close> inside the loop, or by falling out of it (\<open>break\<close> or exhausted condition)
  with the current values of \<open>import_posted\<close> and \<open>data\<close>.
\<close>

datatype submit_exit = Raised pyexc | Returned json | LoopExit bool json

function submit_loop ::
  "client \<Rightarrow> transport \<Rightarrow> string \<Rightarrow> json \<Rightarrow> int \<Rightarrow> world \<Rightarrow> submit_exit \<times> world" where
  "submit_loop c tr u data retries_left w =
     (if retries_left > 0 then
        (case http_post c tr u (Some data) w of
           (r, w1) \<Rightarrow>
             if status_code r = 200 then
               (case parsed r of
                  None \<Rightarrow> (Raised ValueError, w1)
                | Some data' \<Rightarrow>
                    (case py_getitem data' ''status'' of
                       Inl e \<Rightarrow> (Raised e, w1)
                     | Inr status \<Rightarrow>
                         if status \<notin> set [JStr ''queued'']
                         then (Returned JNull, emit ERROR (UnexpectedPostStatus status (resp_text r)) w1)
                         else (LoopExit True data', emit DEBUG (ImportRequestSuccessful (resp_text r)) w1)))
             else if status_code r = 424 then
               (case parsed r of
                  None \<Rightarrow> (Raised ValueError, w1)
                | Some data' \<Rightarrow>
                    (case py_getitem data' ''error'' of
                       Inl e \<Rightarrow> (Raised e, w1)
                     | Inr err \<Rightarrow>
                         (case sleep 5 (emit WARNING (WaitingAndRetrying err) w1) of
                            (Inl e, w2) \<Rightarrow> (Raised e, w2)
                          | (Inr v, w2) \<Rightarrow> submit_loop c tr u data' (retries_left - 1) w2)))
             else
               (case handle_bad_http_response c r UnableToImport False w1 of
                  (Inl e, w2) \<Rightarrow> (Raised e, w2)
                | (Inr v, w2) \<Rightarrow> (Returned JNull, w2)))
      else (LoopExit False data, w))"
  by pat_completeness auto
termination
  by (relation "measure (\<lambda>(c, tr, u, data, retries_left, w). nat retries_left)") auto

text \<open>
  The condition of the polling loop, with Python's left-to-right short-circuit evaluation.
\<close>

definition poll_cond :: "json \<Rightarrow> int \<Rightarrow> pyexc + bool" where
  "poll_cond data retries_left =
     (if data = JNull then Inr False
      else case py_getitem data ''status'' of
             Inl e \<Rightarrow> Inl e
           | Inr s \<Rightarrow> Inr ((s = JStr ''queued'' \<or> s = JStr ''processing'') \<and> retries_left \<ge> 0))"

function poll_loop ::
  "client \<Rightarrow> transport \<Rightarrow> int \<Rightarrow> json \<Rightarrow> int \<Rightarrow> world \<Rightarrow> (pyexc + json) \<times> world" where
  "poll_loop c tr secs_per_wait_retry data retries_left w =
     (if poll_cond data retries_left = Inr True then
        (case sleep secs_per_wait_retry w of
           (Inl e, w1) \<Rightarrow> (Inl e, w1)
         | (Inr v, w1) \<Rightarrow>
             (case import_status c tr w1 of
                (Inl e, w2) \<Rightarrow> (Inl e, w2)
              | (Inr data', w2) \<Rightarrow> poll_loop c tr secs_per_wait_retry data' (retries_left - 1) w2))
      else
        (case poll_cond data retries_left of
           Inl e \<Rightarrow> (Inl e, w)
         | Inr b \<Rightarrow> (Inr data, w)))"
  by pat_completeness auto
termination
  by (relation "measure (\<lambda>(c, tr, secs, data, retries_left, w). nat (retries_left + 1))")
     (auto simp: poll_cond_def split: if_splits sum.splits)

definition import_executions_priv ::
  "client \<Rightarrow> transport \<Rightarrow> json \<Rightarrow> int \<Rightarrow> bool \<Rightarrow> int \<Rightarrow> int \<Rightarrow> world
     \<Rightarrow> (pyexc + json) \<times> world" where
  "import_executions_priv c tr data import_retries wait_for_completion wait_retries
       secs_per_wait_retry w =
     (case submit_loop c tr (baseurl c @ ''/'' @ ''imports'') data import_retries w of
        (Raised e, w1) \<Rightarrow> (Inl e, w1)
      | (Returned v, w1) \<Rightarrow> (Inr v, w1)
      | (LoopExit import_posted data1, w1) \<Rightarrow>
          if \<not> import_posted then (Inr JNull, emit ERROR (GivingUpImport import_retries) w1)
          else if wait_for_completion then
            (case import_status c tr (emit DEBUG WaitingForImport w1) of
               (Inl e, w2) \<Rightarrow> (Inl e, w2)
             | (Inr data2, w2) \<Rightarrow>
                 (case poll_loop c tr secs_per_wait_retry data2 wait_retries w2 of
                    (Inl e, w3) \<Rightarrow> (Inl e, w3)
                  | (Inr data3, w3) \<Rightarrow>
                      (case py_getitem data3 ''status'' of
                         Inl e \<Rightarrow> (Inl e, w3)
                       | Inr s \<Rightarrow>
                           if s = JStr ''ready'' then (Inr JNull, emit ERROR ImporterReady w3)
                           else if s = JStr ''succeeded'' then (Inr data3, emit DEBUG ImportSuccessful w3)
                           else if s = JStr ''failure'' then (Inr data3, emit ERROR ImportHadFailures w3)
                           else if s \<in> set [JStr ''queued'', JStr ''processing'']
                           then (Inr JNull, emit ERROR (StillProcessing wait_retries) w3)
                           else (Inr JNull, emit ERROR (UnsupportedImportStatus s) w3))))
          else (Inr JNull, w1))"

subsection \<open>The public entry point and the caller's objects\<close>

text \<open>
  \<open>import_executions\<close> receives its \<open>executions\<close> and \<open>tags\<close> arguments by reference.
  The caller's objects live in a store; the local name \<open>tags\<close> is unbound to a list
  (\<open>None\<close>), bound to the caller's list, or bound to the fresh list that
  \<open>tags = []\<close> creates. \<open>copy.deepcopy\<close> reads the value out of the store.
  \<open>account_tag\<close> is a string or \<open>None\<close>.
\<close>

type_synonym addr = nat
type_synonym store = "addr \<Rightarrow> json"

datatype tags_var = NoTags | CallerList addr | FreshList "json list"

fun list_items :: "store \<Rightarrow> tags_var \<Rightarrow> json list" where
  "list_items hp NoTags = []"
| "list_items hp (CallerList t) = (case hp t of JArr ts \<Rightarrow> ts | _ \<Rightarrow> [])"
| "list_items hp (FreshList ts) = ts"

text \<open>\<open>tags.append(x)\<close>: in place, so through the reference when there is one.\<close>

fun list_append :: "store \<Rightarrow> tags_var \<Rightarrow> json \<Rightarrow> store \<times> tags_var" where
  "list_append hp NoTags x = (hp, NoTags)"
| "list_append hp (CallerList t) x = (hp(t := JArr (list_items hp (CallerList t) @ [x])), CallerList t)"
| "list_append hp (FreshList ts) x = (hp, FreshList (ts @ [x]))"

definition import_executions ::
  "client \<Rightarrow> transport \<Rightarrow> store \<Rightarrow> addr \<Rightarrow> string option \<Rightarrow> addr option \<Rightarrow> bool \<Rightarrow> bool
     \<Rightarrow> int \<Rightarrow> bool \<Rightarrow> int \<Rightarrow> int \<Rightarrow> world \<Rightarrow> (pyexc + json) \<times> store \<times> world" where
  "import_executions c tr hp executions account_tag tags allow_duplicates overlay_commissions
       import_retries wait_for_completion wait_retries secs_per_wait_retry w =
     (case py_len (hp executions) of
        Inl e \<Rightarrow> (Inl e, hp, w)
      | Inr n \<Rightarrow>
          if n = 0 then (Inl ValueError, hp, w)
          else if \<not> is_list (hp executions) then (Inl ValueError, hp, w)
          else if (case tags of None \<Rightarrow> False | Some t \<Rightarrow> \<not> is_list (hp t))
          then (Inl ValueError, hp, w)
          else
            (let data = [(''executions'', hp executions),
                         (''allow_duplicates'', JBool allow_duplicates),
                         (''overlay_commissions'', JBool overlay_commissions)];
                 tags0 = (case tags of None \<Rightarrow> NoTags | Some t \<Rightarrow> CallerList t);
                 (data1, hp1, tags1) =
                   (case account_tag of
                      None \<Rightarrow> (data, hp, tags0)
                    | Some a \<Rightarrow>
                        (let d = AList.update ''account_tag'' (JStr a) data;
                             tv = (if tags0 = NoTags then FreshList [] else tags0)
                         in if JStr a \<notin> set (list_items hp tv)
                            then (case list_append hp tv (JStr a) of (hp', tv') \<Rightarrow> (d, hp', tv'))
                            else (d, hp, tv)));
                 data2 = (if tags1 \<noteq> NoTags
                          then AList.update ''tags'' (JArr (list_items hp1 tags1)) data1
                          else data1)
             in case import_executions_priv c tr (JObj data2) import_retries wait_for_completion
                       wait_retries secs_per_wait_retry w of
                  (res, w') \<Rightarrow> (res, hp1, w')))"

section \<open>Deleting trades\<close>

text \<open>Trade ids are given as strings, on which \<open>str\<close> is the identity.\<close>

definition delete_trade :: "client \<Rightarrow> transport \<Rightarrow> string \<Rightarrow> world \<Rightarrow> (pyexc + bool) \<times> world" where
  "delete_trade c tr trade_id w =
     (case http_delete c tr (baseurl c @ ''/'' @ ''trades'' @ ''/'' @ trade_id) None w of
        (r, w1) \<Rightarrow>
          if status_code r = 200
          then (Inr True, emit DEBUG (DeletedTrade trade_id (resp_text r)) w1)
          else
            (case handle_bad_http_response c r (DeletionOfTrade trade_id) False w1 of
               (Inl e, w2) \<Rightarrow> (Inl e, w2)
             | (Inr u, w2) \<Rightarrow> (Inr False, w2)))"

fun delete_trades_loop ::
  "client \<Rightarrow> transport \<Rightarrow> string list \<Rightarrow> bool list \<Rightarrow> world \<Rightarrow> (pyexc + bool list) \<times> world" where
  "delete_trades_loop c tr [] results w = (Inr results, w)"
| "delete_trades_loop c tr (trade_id # rest) results w =
     (case delete_trade c tr trade_id w of
        (Inl e, w1) \<Rightarrow> (Inl e, w1)
      | (Inr ok, w1) \<Rightarrow>
          if \<not> ok
          then delete_trades_loop c tr rest (results @ [False]) (emit ERROR (UnableToDeleteTrade trade_id) w1)
          else delete_trades_loop c tr rest (results @ [True]) w1)"

text \<open>
  \<open>trade_id\<close> is a local name of \<open>delete_trades\<close> (the \<open>for\<close> loop assigns it), unbound
  when the second statement reads it.
\<close>

definition delete_trades ::
  "client \<Rightarrow> transport \<Rightarrow> string list \<Rightarrow> world \<Rightarrow> (pyexc + bool list) \<times> world" where
  "delete_trades c tr trade_ids w =
     (let results = [];
          trade_id = (None :: string option)
      in case trade_id of
           None \<Rightarrow> (Inl UnboundLocalError, w)
         | Some t \<Rightarrow> delete_trades_loop c tr trade_ids results w)"

section \<open>Listing trades\<close>

definition get_trades_priv ::
  "client \<Rightarrow> transport \<Rightarrow> (string \<times> json) list \<Rightarrow> world \<Rightarrow> (pyexc + json) \<times> world" where
  "get_trades_priv c tr data w =
     (case http_get c tr (baseurl c @ ''/'' @ ''trades'') (Some (JObj data)) w of
        (r, w1) \<Rightarrow>
          if status_code r = 200 then
            (let w2 = emit DEBUG (QueriedUrl (resp_url r)) w1
             in case parsed r of
                  None \<Rightarrow> (Inl ValueError, w2)
                | Some result \<Rightarrow>
                    (case py_contains ''trades'' result of
                       Inl e \<Rightarrow> (Inl e, w2)
                     | Inr False \<Rightarrow> (Inr JNull, emit ERROR (NoTradesField (resp_url r) (resp_text r)) w2)
                     | Inr True \<Rightarrow> (py_getitem result ''trades'', w2)))
          else
            (case handle_bad_http_response c r UnableToQueryTrades True w1 of
               (Inl e, w2) \<Rightarrow> (Inl e, w2)
             | (Inr u, w2) \<Rightarrow> (Inr JNull, w2)))"

text \<open>
  The paging loop of \<open>get_trades\<close>, \<open>for page in range(1, total_pages + 1)\<close>. The result
  \<open>None\<close> is the \<open>return None\<close> inside the loop; \<open>Some all_trades\<close> is the loop left by
  \<open>break\<close> or by running out of pages.
\<close>

function get_trades_loop ::
  "client \<Rightarrow> transport \<Rightarrow> int \<Rightarrow> int \<Rightarrow> int \<Rightarrow> (string \<times> json) list \<Rightarrow> json list \<Rightarrow> world
     \<Rightarrow> (pyexc + json list option) \<times> world" where
  "get_trades_loop c tr max_trades total_pages page data all_trades w =
     (if page \<le> total_pages then
        (let trades_left = max_trades - int (length all_trades);
             data1 = AList.update ''page'' (JNum page) data;
             data2 = AList.update ''count'' (JNum (if trades_left \<ge> 100 then 100 else trades_left)) data1
         in case get_trades_priv c tr data2 w of
              (Inl e, w1) \<Rightarrow> (Inl e, w1)
            | (Inr trades, w1) \<Rightarrow>
                if trades = JNull then (Inr None, emit DEBUG (FoundErrorCondition data2) w1)
                else
                  (case py_len trades of
                     Inl e \<Rightarrow> (Inl e, w1)
                   | Inr n \<Rightarrow>
                       if n = 0 then (Inr (Some all_trades), emit DEBUG (NoTradesFound data2) w1)
                       else
                         (case py_iter trades of
                            Inl e \<Rightarrow> (Inl e, emit DEBUG (TradesFound n data2) w1)
                          | Inr items \<Rightarrow>
                              get_trades_loop c tr max_trades total_pages (page + 1) data2
                                (all_trades @ items) (emit DEBUG (TradesFound n data2) w1))))
      else (Inr (Some all_trades), w))"
  by pat_completeness auto
termination
  by (relation "measure (\<lambda>(c, tr, max_trades, total_pages, page, data, all_trades, w).
                   nat (total_pages + 1 - page))") auto

text \<open>
  \<open>get_trades\<close> from the computation of \<open>total_pages\<close> on. The filter dictionary \<open>data\<close>
  and the flag \<open>tag_warning_on_no_results\<close> are what the validation of the filter
  arguments leaves; \<open>max_trades\<close> is an integer, for which
  \<open>int(math.ceil(max_trades / 100.0))\<close> is the rounded-up quotient.
\<close>

definition get_trades ::
  "client \<Rightarrow> transport \<Rightarrow> (string \<times> json) list \<Rightarrow> bool \<Rightarrow> string \<Rightarrow> int \<Rightarrow> world
     \<Rightarrow> (pyexc + json) \<times> world" where
  "get_trades c tr data tag_warning_on_no_results tag_expr max_trades w =
     (let total_pages = (if max_trades > 100 then - ((- max_trades) div 100) else 1)
      in case get_trades_loop c tr max_trades total_pages 1 data [] w of
           (Inl e, w1) \<Rightarrow> (Inl e, w1)
         | (Inr None, w1) \<Rightarrow> (Inr JNull, w1)
         | (Inr (Some all_trades), w1) \<Rightarrow>
             (Inr (JArr all_trades),
              if tag_warning_on_no_results \<and> length all_trades = 0
              then emit WARNING (DubiousTagExpression tag_expr) w1 else w1))"

declare submit_loop.simps [simp del] poll_loop.simps [simp del] get_trades_loop.simps [simp del]

section \<open>Concrete clients, responses and transports\<close>

definition client0 :: client where
  "client0 = \<lparr>username = ''user'', password = ''secret'', user_agent = ''agent'',
              target_user = None, baseurl = ''https://www.tradervue.com/api/v1'',
              verbose_http = False\<rparr>"

definition world0 :: world where
  "world0 = \<lparr>requests = [], log = [], sleeps = []\<rparr>"

definition quoted :: "string \<Rightarrow> string" where
  "quoted s = CHR 0x22 # s @ [CHR 0x22]"

text \<open>A response whose body is the JSON object with the one given string field.\<close>

definition field_response :: "int \<Rightarrow> string \<Rightarrow> string \<Rightarrow> response" where
  "field_response code k v =
     \<lparr>status_code = code, resp_text = ''{'' @ quoted k @ '': '' @ quoted v @ ''}'',
      parsed = Some (JObj [(k, JStr v)]), resp_url = [], resp_headers = []\<rparr>"

text \<open>A response with the given body text and its parse.\<close>

definition body_response :: "int \<Rightarrow> string \<Rightarrow> json option \<Rightarrow> response" where
  "body_response code t j =
     \<lparr>status_code = code, resp_text = t, parsed = j, resp_url = [], resp_headers = []\<rparr>"

text \<open>
  A server that queues every posted import and reports the given status to every status
  query.
\<close>

definition stuck_server :: "string \<Rightarrow> transport" where
  "stuck_server st h rq =
     (if meth rq = POST then field_response 200 ''status'' ''queued''
      else field_response 200 ''status'' st)"

definition status_queries :: "world \<Rightarrow> request list" where
  "status_queries w = filter (\<lambda>rq. meth rq = GET) (requests w)"

definition batch0 :: json where
  "batch0 = JObj [(''executions'', JArr [JObj [(''symbol'', JStr ''SPY'')]]),
                  (''allow_duplicates'', JBool False),
                  (''overlay_commissions'', JBool False)]"

text \<open>A server that answers HTTP 424 to the first \<open>k\<close> requests and queues the next.\<close>

definition busy_then_queued :: "nat \<Rightarrow> transport" where
  "busy_then_queued k h rq =
     (if length h < k then field_response 424 ''error'' ''Import in progress''
      else field_response 200 ''status'' ''queued'')"

text \<open>A server that queues every posted import and whose status endpoint is down.\<close>

definition status_down_server :: transport where
  "status_down_server h rq =
     (if meth rq = POST then field_response 200 ''status'' ''queued''
      else field_response 500 ''error'' ''Internal Server Error'')"

text \<open>
  A caller's store: one execution list at address 0, the tag list \<open>["a", "b"]\<close> at
  address 1.
\<close>

definition store0 :: store where
  "store0 = (\<lambda>a. JNull)(0 := JArr [JObj [(''symbol'', JStr ''SPY'')]],
                          1 := JArr [JStr ''a'', JStr ''b''])"

section \<open>Unfolding on concrete runs\<close>

lemmas run_defs =
  import_executions_def import_executions_priv_def import_status_def http_get_def http_post_def
  make_request_def build_request_def request_headers_def handle_bad_http_response_def
  server_error_of_def truthy_def emit_def sleep_def poll_cond_def
  submit_loop.simps poll_loop.simps

lemmas fixture_defs =
  client0_def world0_def batch0_def store0_def quoted_def field_response_def body_response_def
  stuck_server_def busy_then_queued_def status_down_server_def status_queries_def

section \<open>Deleting several trades\<close>

text \<open>
  Claim C9. Whatever the trade ids, \<open>delete_trades\<close> raises the unbound-local error
  before any deletion: the outside world is as it was, so no request was issued and no
  trade deleted.
\<close>

theorem delete_trades_unbound_local:
  "delete_trades c tr trade_ids w = (Inl UnboundLocalError, w)"
  by (simp add: delete_trades_def)

section \<open>Polling that never completes\<close>

text \<open>
  Claim C1. With \<open>wait_retries = 3\<close> and a status endpoint that always answers
  \<open>processing\<close>, the call returns \<open>None\<close>, but it has queried the status endpoint
  5 times, that is \<open>wait_retries + 2\<close>, where the claim says \<open>wait_retries + 1\<close>: the
  loop runs while \<open>retries_left >= 0\<close>.
\<close>

theorem polling_stuck_queries_five_times:
  "fst (import_executions_priv client0 (stuck_server ''processing'') batch0 3 True 3 15 world0)
     = Inr JNull
   \<and> length (status_queries
        (snd (import_executions_priv client0 (stuck_server ''processing'') batch0 3 True 3 15 world0)))
     = 5"
  by (simp add: run_defs fixture_defs)

section \<open>Polling that observes a failed import\<close>

text \<open>
  Claim C2. When the status endpoint reports \<open>failed\<close>, the call returns \<open>None\<close> and
  logs the status as unsupported, where the claim says the payload is returned: the final
  classification compares with \<open>'failure'\<close>, a status \<open>import_status\<close> never lets through.
\<close>

theorem polling_failed_returns_none:
  "fst (import_executions_priv client0 (stuck_server ''failed'') batch0 3 True 3 15 world0)
     = Inr JNull
   \<and> last (log (snd (import_executions_priv client0 (stuck_server ''failed'') batch0 3 True 3 15 world0)))
     = (ERROR, UnsupportedImportStatus (JStr ''failed''))"
  by (simp add: run_defs fixture_defs)

section \<open>What a re-attempt posts\<close>

text \<open>
  Claim C3. After one HTTP 424 the second attempt posts the body of the 424 response, not
  the batch: the loop stores the parsed response in \<open>data\<close>, the variable it posts.
\<close>

theorem retry_posts_error_body:
  "map payload
     (requests (snd (import_executions_priv client0 (busy_then_queued 1) batch0 3 False 3 15 world0)))
   = [Some batch0, Some (JObj [(''error'', JStr ''Import in progress'')])]"
  by (simp add: run_defs fixture_defs)

section \<open>Exceptions that leave the import call\<close>

text \<open>
  Claim C5. A valid call whose submission is queued and whose status query is answered
  with HTTP 500 raises \<open>TypeError\<close>: \<open>import_status\<close> returns \<open>None\<close>, the polling loop
  is skipped, and the classification subscripts \<open>None\<close>.
\<close>

theorem import_raises_when_status_query_fails:
  "fst (import_executions client0 status_down_server store0 0 None None False False
          3 True 3 15 world0)
   = Inl TypeError"
  by (simp add: run_defs fixture_defs)

section \<open>The failure reason of a bad response\<close>

text \<open>
  Claim C8. For the body \<open>5\<close>, valid JSON with neither key, no reason is derived: the
  membership test on a number raises \<open>TypeError\<close>, which the handler does not catch.
\<close>

theorem bad_response_number_body_raises:
  "fst (handle_bad_http_response client0 (body_response 500 ''5'' (Some (JNum 5)))
          UnableToQueryTrades False world0)
   = Inl TypeError"
  by (simp add: run_defs fixture_defs)

end
